theory Spec2Isabelle
  imports Main "HOL-Library.Multiset" "HOL-Library.Sublist"
begin

section \<open>Data model\<close>

text \<open>
  Identifiers, roles, branches and message types are strings, as in the source
  (\<^verbatim>\<open>sender: any\<close>, \<^verbatim>\<open>targetRole: string\<close>); a nullable column is an
  \<open>option\<close>, \<open>None\<close> standing for \<^verbatim>\<open>null\<close>. Of a user row only the columns the
  modelled handlers read are kept (\<^verbatim>\<open>id\<close>, \<^verbatim>\<open>role\<close>, \<^verbatim>\<open>branch\<close>).
  Counters are unbounded integers: a counter moves by one per request, so the bounds of
  the column type are out of reach.
\<close>

record user =
  u_id :: string
  u_role :: string
  u_branch :: "string option"

text \<open>
  Posts and comments have the columns of the \<^verbatim>\<open>posts\<close> and \<^verbatim>\<open>comments\<close> tables
  of \<^verbatim>\<open>convex/schema.ts\<close>, which are also the columns the Express handlers read and
  write through Prisma; \<open>p_createdAt\<close> is \<^verbatim>\<open>createdAt\<close> there and \<^verbatim>\<open>timestamp\<close>
  in Convex. A table with a primary key is a map from the key to the row.
\<close>

record post =
  p_authorId :: string
  p_content :: string
  p_mediaUrl :: "string option"
  p_mediaType :: "string option"
  p_likes :: int
  p_likedBy :: "string list"
  p_commentCount :: int
  p_createdAt :: int

record comment =
  c_postId :: string
  c_authorId :: string
  c_content :: string
  c_likes :: int
  c_likedBy :: "string list"
  c_createdAt :: int

record notification =
  n_userId :: string
  n_type :: string
  n_referenceId :: string
  n_content :: string
  n_isRead :: bool
  n_createdAt :: int

text \<open>
  A message of the Express store. \<open>m_recipients\<close> holds the ids connected through the
  many-to-many relation \<^verbatim>\<open>recipients\<close>, in the order they were connected. Messages
  and users are kept as lists in insertion order, since the handlers enumerate them.
\<close>

record message =
  m_id :: string
  m_senderId :: string
  m_content :: string
  m_messageType :: string
  m_targetRole :: "string option"
  m_targetBranch :: "string option"
  m_recipients :: "string list"
  m_isRead :: bool
  m_createdAt :: int

record store =
  users :: "user list"
  messages :: "message list"
  posts :: "string \<rightharpoonup> post"
  comments :: "string \<rightharpoonup> comment"
  notifications :: "string \<rightharpoonup> notification"

text \<open>The Convex database: the tables of \<^verbatim>\<open>convex/schema.ts\<close>.\<close>

record cx_message =
  cm_id :: string
  cm_senderId :: string
  cm_content :: string
  cm_targetRole :: "string option"
  cm_targetBranch :: "string option"
  cm_recipientIds :: "string list"
  cm_isRead :: bool
  cm_timestamp :: int

record convex_db =
  cx_messages :: "cx_message list"
  cx_posts :: "string \<rightharpoonup> post"
  cx_comments :: "string \<rightharpoonup> comment"
  cx_notifications :: "string \<rightharpoonup> notification"

section \<open>Requests, responses and store failures\<close>

text \<open>
  A handler answers with a status code and a message; the entity it also puts in the
  body is read from the returned store. Every handler body is one \<^verbatim>\<open>try\<close> block
  whose \<^verbatim>\<open>catch\<close> answers 500, and every \<^verbatim>\<open>await prisma...\<close> in it may throw.
  The handlers take a \<open>fault\<close>: the store call of this request that throws, if any. A
  handler calls each kind of store operation at most once, so the kind names the call.
  What was written before the throw stays written: no handler opens a transaction.
\<close>

datatype response = Response (status: nat) (message: string)

datatype db_call = FindUnique | FindMany | Create | Update | Delete

definition internal_error :: response where
  "internal_error = Response 500 ''Internal server error''"

text \<open>\<^verbatim>\<open>z.string().min(1)\<close> on a body field that may be absent.\<close>

definition z_string_min1 :: "string option \<Rightarrow> bool" where
  "z_string_min1 v = (case v of None \<Rightarrow> False | Some s \<Rightarrow> s \<noteq> [])"

text \<open>JavaScript truthiness of an optional string: absent and empty are falsy.\<close>

definition truthy :: "string option \<Rightarrow> bool" where
  "truthy v = (case v of None \<Rightarrow> False | Some s \<Rightarrow> s \<noteq> [])"

text \<open>
  Modelled from the spec: \<^verbatim>\<open>prisma/schema.prisma\<close> is not among the sources, so
  the column defaults a Prisma \<^verbatim>\<open>create\<close> fills in are taken from the spec's data
  model and from the Convex mutations, which write them out: \<^verbatim>\<open>likes\<close> 0,
  \<^verbatim>\<open>likedBy\<close> empty, \<^verbatim>\<open>commentCount\<close> 0, \<^verbatim>\<open>isRead\<close> false,
  \<^verbatim>\<open>createdAt\<close> the time of the call. The generated primary key is the parameter
  \<open>newId\<close> of the creating handler; a key already in the table violates the primary
  key and makes the \<^verbatim>\<open>create\<close> throw.
\<close>

definition default_likes :: int where "default_likes = 0"
definition default_likedBy :: "string list" where "default_likedBy = []"
definition default_commentCount :: int where "default_commentCount = 0"

section \<open>Messaging permissions (src/middleware/auth.middleware.ts)\<close>

text \<open>
  \<^verbatim>\<open>validateMessagePermissions(sender, targetRole, targetBranch)\<close>: three
  \<^verbatim>\<open>if\<close> statements on \<^verbatim>\<open>sender.role\<close>, each returning, and a final
  \<^verbatim>\<open>return false\<close>. \<^verbatim>\<open>===\<close> on strings and \<^verbatim>\<open>null\<close> is equality of
  \<open>string option\<close>.
\<close>

definition validateMessagePermissions :: "user \<Rightarrow> string \<Rightarrow> string option \<Rightarrow> bool" where
  "validateMessagePermissions sender targetRole targetBranch =
     (if u_role sender = ''OFFICIAL'' then True
      else if u_role sender = ''TEACHER'' then
        targetRole = ''STUDENT'' \<and> targetBranch = u_branch sender
      else if u_role sender = ''STUDENT'' then targetRole = ''STUDENT''
      else False)"

section \<open>The seeded store\<close>

text \<open>
  The users the seed script creates (one official, two teachers, three students), under
  the names of its variables, in a store with nothing else; and the Convex database with
  no document. The concrete runs below start from them.
\<close>

definition official :: user where
  "official = \<lparr>u_id = ''official'', u_role = ''OFFICIAL'', u_branch = None\<rparr>"

definition teacher1 :: user where
  "teacher1 = \<lparr>u_id = ''teacher1'', u_role = ''TEACHER'', u_branch = Some ''CSE''\<rparr>"

definition teacher2 :: user where
  "teacher2 = \<lparr>u_id = ''teacher2'', u_role = ''TEACHER'', u_branch = Some ''IT''\<rparr>"

definition student1 :: user where
  "student1 = \<lparr>u_id = ''student1'', u_role = ''STUDENT'', u_branch = Some ''CSE''\<rparr>"

definition student2 :: user where
  "student2 = \<lparr>u_id = ''student2'', u_role = ''STUDENT'', u_branch = Some ''CSE''\<rparr>"

definition student3 :: user where
  "student3 = \<lparr>u_id = ''student3'', u_role = ''STUDENT'', u_branch = Some ''IT''\<rparr>"

definition seed :: store where
  "seed = \<lparr>users = [official, teacher1, teacher2, student1, student2, student3],
           messages = [], posts = Map.empty, comments = Map.empty,
           notifications = Map.empty\<rparr>"

definition convex_empty :: convex_db where
  "convex_empty = \<lparr>cx_messages = [], cx_posts = Map.empty, cx_comments = Map.empty,
                   cx_notifications = Map.empty\<rparr>"

section \<open>Sending messages (src/controllers/message.controller.ts)\<close>

text \<open>
  The body of a send request and \<^verbatim>\<open>sendMessageSchema\<close>, which accepts it when
  \<^verbatim>\<open>content\<close> is a string of at least one character and \<^verbatim>\<open>targetRole\<close> is
  absent or one of STUDENT and TEACHER; \<^verbatim>\<open>targetBranch\<close> is an optional string and
  \<^verbatim>\<open>recipientIds\<close> an optional array of strings.
\<close>

record send_body =
  b_content :: "string option"
  b_targetRole :: "string option"
  b_targetBranch :: "string option"
  b_recipientIds :: "string list option"

definition sendMessageSchema :: "send_body \<Rightarrow> bool" where
  "sendMessageSchema body =
     (z_string_min1 (b_content body)
      \<and> (case b_targetRole body of
            None \<Rightarrow> True
          | Some r \<Rightarrow> r = ''STUDENT'' \<or> r = ''TEACHER''))"

text \<open>
  The gate of line 35:
  \<^verbatim>\<open>validateMessagePermissions(req.user, targetRole || 'STUDENT', targetBranch || null)\<close>.
\<close>

definition sendMessage_permitted :: "user \<Rightarrow> send_body \<Rightarrow> bool" where
  "sendMessage_permitted sender body =
     validateMessagePermissions sender
       (if truthy (b_targetRole body) then the (b_targetRole body) else ''STUDENT'')
       (if truthy (b_targetBranch body) then b_targetBranch body else None)"

text \<open>
  The \<^verbatim>\<open>where\<close> clause of the recipient query: the role, and a branch when the
  clause has one (\<open>None\<close>: no \<^verbatim>\<open>branch\<close> key; \<open>Some b\<close>: \<^verbatim>\<open>branch\<close> equal to
  \<open>b\<close>, which may be \<^verbatim>\<open>null\<close>), and \<^verbatim>\<open>prisma.user.findMany\<close> on it.
\<close>

definition recipientFilter :: "user \<Rightarrow> send_body \<Rightarrow> string \<times> string option option" where
  "recipientFilter sender body =
     (the (b_targetRole body),
      if truthy (b_targetBranch body) then Some (b_targetBranch body)
      else if u_role sender = ''OFFICIAL'' then None
      else if u_role sender = ''TEACHER'' then Some (u_branch sender)
      else None)"

definition user_findMany :: "string \<times> string option option \<Rightarrow> user list \<Rightarrow> user list" where
  "user_findMany flt us =
     filter (\<lambda>x. u_role x = fst flt
                \<and> (case snd flt of None \<Rightarrow> True | Some b \<Rightarrow> u_branch x = b)) us"

text \<open>
  Lines 41 to 70 of \<^verbatim>\<open>sendMessage\<close>: the message type and the recipient ids, from
  the user table, the sender and the body.
\<close>

definition sendMessage_recipients :: "user list \<Rightarrow> user \<Rightarrow> send_body \<Rightarrow> string \<times> string list" where
  "sendMessage_recipients us sender body =
     (if (case b_recipientIds body of None \<Rightarrow> False | Some ids \<Rightarrow> length ids > 0)
      then (''INDIVIDUAL'', the (b_recipientIds body))
      else if truthy (b_targetRole body)
      then (''GROUP'', map u_id (user_findMany (recipientFilter sender body) us))
      else (''INDIVIDUAL'', []))"

text \<open>
  \<^verbatim>\<open>sendMessage\<close>. The recipient query runs only on the GROUP path. The message row
  is created without recipients; when there are recipients a second call connects them,
  and it throws when one of the ids is not a user (the relation refers to user rows).
\<close>

definition sendMessage ::
  "db_call option \<Rightarrow> string \<Rightarrow> int \<Rightarrow> store \<Rightarrow> user option \<Rightarrow> send_body \<Rightarrow> store \<times> response" where
  "sendMessage fault newId now st req_user body =
     (case req_user of
        None \<Rightarrow> (st, Response 401 ''Authentication required'')
      | Some u \<Rightarrow>
          if \<not> sendMessageSchema body then (st, Response 400 ''Validation error'')
          else if \<not> sendMessage_permitted u body
          then (st, Response 403 ''Insufficient permissions to send message'')
          else if fault = Some FindMany
                  \<and> fst (sendMessage_recipients (users st) u body) = ''GROUP''
          then (st, internal_error)
          else
            let messageType = fst (sendMessage_recipients (users st) u body);
                recipients = snd (sendMessage_recipients (users st) u body)
            in if fault = Some Create \<or> newId \<in> set (map m_id (messages st))
               then (st, internal_error)
               else
                 let st1 = st\<lparr>messages := messages st @
                             [\<lparr>m_id = newId, m_senderId = u_id u,
                               m_content = the (b_content body), m_messageType = messageType,
                               m_targetRole =
                                 (if truthy (b_targetRole body) then b_targetRole body else None),
                               m_targetBranch =
                                 (if truthy (b_targetBranch body) then b_targetBranch body
                                  else None),
                               m_recipients = [], m_isRead = False, m_createdAt = now\<rparr>]\<rparr>
                 in if length recipients > 0 then
                      if fault = Some Update
                           \<or> \<not> set recipients \<subseteq> set (map u_id (users st1))
                      then (st1, internal_error)
                      else (st1\<lparr>messages :=
                                 map (\<lambda>m. if m_id m = newId
                                           then m\<lparr>m_recipients := m_recipients m @ recipients\<rparr>
                                           else m) (messages st1)\<rparr>,
                            Response 201 ''Message sent successfully'')
                    else (st1, Response 201 ''Message sent successfully''))"

text \<open>
  \<^verbatim>\<open>getConversationWithUser\<close>: the messages the caller sent with \<open>userId\<close> among
  the recipients, or \<open>userId\<close> sent with the caller among them, under
  \<^verbatim>\<open>orderBy: { createdAt: 'asc' }\<close>. The ordering is the store's: \<open>orderBy\<close> stands
  for what the store returns for \<^verbatim>\<open>ORDER BY "createdAt" ASC\<close> on the matching rows.
\<close>

definition getConversationWithUser ::
  "(message list \<Rightarrow> message list) \<Rightarrow> db_call option \<Rightarrow> store \<Rightarrow> user option \<Rightarrow> string
    \<Rightarrow> response \<times> message list" where
  "getConversationWithUser orderBy fault st req_user userId =
     (case req_user of
        None \<Rightarrow> (Response 401 ''Authentication required'', [])
      | Some u \<Rightarrow>
          if fault = Some FindMany then (internal_error, [])
          else (Response 200 [],
                orderBy (filter (\<lambda>m. (m_senderId m = u_id u \<and> userId \<in> set (m_recipients m))
                                    \<or> (m_senderId m = userId \<and> u_id u \<in> set (m_recipients m)))
                           (messages st))))"

section \<open>Notifications (src/controllers/notification.controller.ts)\<close>

text \<open>
  \<^verbatim>\<open>createNotification\<close> is a \<^verbatim>\<open>try\<close> around \<^verbatim>\<open>prisma.notification.create\<close>
  whose \<^verbatim>\<open>catch\<close> writes to the console and returns. The store call either returns
  the new store or throws; the function returns how it ended (\<open>Inl\<close>: an exception left
  it), the store and the console lines it wrote. No other function of the sources calls it.
\<close>

datatype exn = PrismaError

definition notification_create ::
  "db_call option \<Rightarrow> string \<Rightarrow> int \<Rightarrow> store \<Rightarrow> string \<Rightarrow> string \<Rightarrow> string \<Rightarrow> string
    \<Rightarrow> exn + store" where
  "notification_create fault newId now st userId type referenceId content =
     (if fault = Some Create \<or> notifications st newId \<noteq> None then Inl PrismaError
      else Inr (st\<lparr>notifications := (notifications st)(newId \<mapsto>
                  \<lparr>n_userId = userId, n_type = type, n_referenceId = referenceId,
                   n_content = content, n_isRead = False, n_createdAt = now\<rparr>)\<rparr>))"

definition createNotification ::
  "db_call option \<Rightarrow> string \<Rightarrow> int \<Rightarrow> store \<Rightarrow> string \<Rightarrow> string \<Rightarrow> string \<Rightarrow> string
    \<Rightarrow> (exn + unit) \<times> store \<times> string list" where
  "createNotification fault newId now st userId type referenceId content =
     (case notification_create fault newId now st userId type referenceId content of
        Inr st' \<Rightarrow> (Inr (), st', [])
      | Inl error \<Rightarrow> (Inr (), st, [''Create notification error:'']))"

section \<open>Posts and comments over Prisma (src/controllers/post.controller.ts)\<close>

text \<open>
  \<^verbatim>\<open>createPost\<close>. \<open>file\<close> is \<^verbatim>\<open>req.file\<close> as (filename, mimetype), when a
  medium was uploaded.
\<close>

definition createPost ::
  "db_call option \<Rightarrow> string \<Rightarrow> int \<Rightarrow> store \<Rightarrow> user option \<Rightarrow> string option
    \<Rightarrow> (string \<times> string) option \<Rightarrow> store \<times> response" where
  "createPost fault newId now st req_user content file =
     (case req_user of
        None \<Rightarrow> (st, Response 401 ''Authentication required'')
      | Some u \<Rightarrow>
          if \<not> z_string_min1 content then (st, Response 400 ''Validation error'')
          else
            let mediaUrl = (case file of None \<Rightarrow> None
                            | Some (filename, mimetype) \<Rightarrow> Some (''/uploads/'' @ filename));
                mediaType = (case file of None \<Rightarrow> None
                             | Some (filename, mimetype) \<Rightarrow>
                                 Some (if prefix ''image/'' mimetype then ''image'' else ''video''))
            in if fault = Some Create \<or> posts st newId \<noteq> None then (st, internal_error)
               else (st\<lparr>posts := (posts st)(newId \<mapsto>
                        \<lparr>p_authorId = u_id u, p_content = the content,
                         p_mediaUrl = mediaUrl, p_mediaType = mediaType,
                         p_likes = default_likes, p_likedBy = default_likedBy,
                         p_commentCount = default_commentCount, p_createdAt = now\<rparr>)\<rparr>,
                     Response 201 ''Post created successfully''))"

text \<open>
  \<^verbatim>\<open>likePost\<close> makes two store calls with an \<^verbatim>\<open>await\<close> on each, and the
  server serves other requests while one waits. \<open>likePost_find\<close> is the handler up to the
  membership test: its answer when it ends there, or the caller and the row
  \<^verbatim>\<open>findUnique\<close> returned. \<open>likePost_update\<close> is the \<^verbatim>\<open>update\<close> call built from
  that row, run on the store as it is when the call arrives: \<^verbatim>\<open>decrement\<close>,
  \<^verbatim>\<open>increment\<close> and \<^verbatim>\<open>push\<close> act on the stored row, \<^verbatim>\<open>set\<close> writes the array
  filtered from the row read before; an \<^verbatim>\<open>update\<close> of a row that is gone throws.
  \<open>likePost\<close> is a request no other request overlaps: the update follows the read on
  the same store.
\<close>

definition likePost_find ::
  "db_call option \<Rightarrow> store \<Rightarrow> user option \<Rightarrow> string \<Rightarrow> response + (user \<times> post)" where
  "likePost_find fault st req_user ident =
     (case req_user of
        None \<Rightarrow> Inl (Response 401 ''Authentication required'')
      | Some u \<Rightarrow>
          if fault = Some FindUnique then Inl internal_error
          else (case posts st ident of
             None \<Rightarrow> Inl (Response 404 ''Post not found'')
           | Some post \<Rightarrow> Inr (u, post)))"

definition likePost_update ::
  "db_call option \<Rightarrow> store \<Rightarrow> user \<Rightarrow> string \<Rightarrow> post \<Rightarrow> store \<times> response" where
  "likePost_update fault st u ident post =
     (let hasLiked = (u_id u \<in> set (p_likedBy post)) in
      if fault = Some Update then (st, internal_error)
      else (case posts st ident of
         None \<Rightarrow> (st, internal_error)
       | Some row \<Rightarrow>
           (st\<lparr>posts := (posts st)(ident \<mapsto>
              row\<lparr>p_likes := (if hasLiked then p_likes row - 1 else p_likes row + 1),
                  p_likedBy := (if hasLiked
                     then filter (\<lambda>userId. userId \<noteq> u_id u) (p_likedBy post)
                     else p_likedBy row @ [u_id u])\<rparr>)\<rparr>,
            Response 200 (if hasLiked then ''Post unliked'' else ''Post liked''))))"

definition likePost ::
  "db_call option \<Rightarrow> store \<Rightarrow> user option \<Rightarrow> string \<Rightarrow> store \<times> response" where
  "likePost fault st req_user ident =
     (case likePost_find fault st req_user ident of
        Inl answer \<Rightarrow> (st, answer)
      | Inr (u, post) \<Rightarrow> likePost_update fault st u ident post)"

text \<open>
  \<^verbatim>\<open>createComment\<close>: \<^verbatim>\<open>post.findUnique\<close>, \<^verbatim>\<open>comment.create\<close>, then a
  separate \<^verbatim>\<open>post.update\<close> incrementing \<^verbatim>\<open>commentCount\<close>. An \<^verbatim>\<open>update\<close> of a
  row that does not exist throws.
\<close>

definition createComment ::
  "db_call option \<Rightarrow> string \<Rightarrow> int \<Rightarrow> store \<Rightarrow> user option \<Rightarrow> string \<Rightarrow> string option
    \<Rightarrow> store \<times> response" where
  "createComment fault newId now st req_user postId content =
     (case req_user of
        None \<Rightarrow> (st, Response 401 ''Authentication required'')
      | Some u \<Rightarrow>
          if \<not> z_string_min1 content then (st, Response 400 ''Validation error'')
          else if fault = Some FindUnique then (st, internal_error)
          else (case posts st postId of
             None \<Rightarrow> (st, Response 404 ''Post not found'')
           | Some post \<Rightarrow>
               if fault = Some Create \<or> comments st newId \<noteq> None then (st, internal_error)
               else
                 let st1 = st\<lparr>comments := (comments st)(newId \<mapsto>
                             \<lparr>c_postId = postId, c_authorId = u_id u, c_content = the content,
                              c_likes = default_likes, c_likedBy = default_likedBy,
                              c_createdAt = now\<rparr>)\<rparr>
                 in if fault = Some Update then (st1, internal_error)
                    else (case posts st1 postId of
                       None \<Rightarrow> (st1, internal_error)
                     | Some p \<Rightarrow>
                         (st1\<lparr>posts := (posts st1)(postId \<mapsto>
                                 p\<lparr>p_commentCount := p_commentCount p + 1\<rparr>)\<rparr>,
                          Response 201 ''Comment created successfully''))))"

text \<open>
  \<^verbatim>\<open>deleteComment\<close>: \<^verbatim>\<open>comment.findUnique\<close>, the ownership check,
  \<^verbatim>\<open>comment.delete\<close>, then a separate \<^verbatim>\<open>post.update\<close> with
  \<^verbatim>\<open>commentCount: { decrement: 1 }\<close>.
\<close>

definition deleteComment ::
  "db_call option \<Rightarrow> store \<Rightarrow> user option \<Rightarrow> string \<Rightarrow> store \<times> response" where
  "deleteComment fault st req_user ident =
     (case req_user of
        None \<Rightarrow> (st, Response 401 ''Authentication required'')
      | Some u \<Rightarrow>
          if fault = Some FindUnique then (st, internal_error)
          else (case comments st ident of
             None \<Rightarrow> (st, Response 404 ''Comment not found'')
           | Some existingComment \<Rightarrow>
               if c_authorId existingComment \<noteq> u_id u
               then (st, Response 403 ''Insufficient permissions'')
               else
                 let postId = c_postId existingComment in
                 if fault = Some Delete then (st, internal_error)
                 else
                   let st1 = st\<lparr>comments := (comments st)(ident := None)\<rparr> in
                   if fault = Some Update then (st1, internal_error)
                   else (case posts st1 postId of
                      None \<Rightarrow> (st1, internal_error)
                    | Some p \<Rightarrow>
                        (st1\<lparr>posts := (posts st1)(postId \<mapsto>
                                p\<lparr>p_commentCount := p_commentCount p - 1\<rparr>)\<rparr>,
                         Response 200 ''Comment deleted successfully''))))"

text \<open>\<^verbatim>\<open>likeComment\<close>: the same two calls on the comment table.\<close>

definition likeComment_find ::
  "db_call option \<Rightarrow> store \<Rightarrow> user option \<Rightarrow> string \<Rightarrow> response + (user \<times> comment)" where
  "likeComment_find fault st req_user ident =
     (case req_user of
        None \<Rightarrow> Inl (Response 401 ''Authentication required'')
      | Some u \<Rightarrow>
          if fault = Some FindUnique then Inl internal_error
          else (case comments st ident of
             None \<Rightarrow> Inl (Response 404 ''Comment not found'')
           | Some comment \<Rightarrow> Inr (u, comment)))"

definition likeComment_update ::
  "db_call option \<Rightarrow> store \<Rightarrow> user \<Rightarrow> string \<Rightarrow> comment \<Rightarrow> store \<times> response" where
  "likeComment_update fault st u ident comment =
     (let hasLiked = (u_id u \<in> set (c_likedBy comment)) in
      if fault = Some Update then (st, internal_error)
      else (case comments st ident of
         None \<Rightarrow> (st, internal_error)
       | Some row \<Rightarrow>
           (st\<lparr>comments := (comments st)(ident \<mapsto>
              row\<lparr>c_likes := (if hasLiked then c_likes row - 1 else c_likes row + 1),
                  c_likedBy := (if hasLiked
                     then filter (\<lambda>userId. userId \<noteq> u_id u) (c_likedBy comment)
                     else c_likedBy row @ [u_id u])\<rparr>)\<rparr>,
            Response 200 (if hasLiked then ''Comment unliked'' else ''Comment liked''))))"

definition likeComment ::
  "db_call option \<Rightarrow> store \<Rightarrow> user option \<Rightarrow> string \<Rightarrow> store \<times> response" where
  "likeComment fault st req_user ident =
     (case likeComment_find fault st req_user ident of
        Inl answer \<Rightarrow> (st, answer)
      | Inr (u, comment) \<Rightarrow> likeComment_update fault st u ident comment)"

section \<open>Convex mutations (convex/schema.ts, mutations part)\<close>

text \<open>
  A Convex mutation runs as one transaction: when the handler throws, nothing it wrote
  is kept. A mutation that can throw returns \<open>Inl\<close> of the error and the caller keeps
  the database it had. \<open>newId\<close> is the document id \<^verbatim>\<open>ctx.db.insert\<close> generates and
  \<open>now\<close> is \<^verbatim>\<open>Date.now()\<close>. The document a mutation returns is read from the
  database it leaves.
\<close>

datatype convex_error = Error string

definition convex_createPost ::
  "string \<Rightarrow> int \<Rightarrow> convex_db \<Rightarrow> string \<Rightarrow> string \<Rightarrow> string option \<Rightarrow> string option
    \<Rightarrow> convex_db" where
  "convex_createPost newId now db authorId content mediaUrl mediaType =
     db\<lparr>cx_posts := (cx_posts db)(newId \<mapsto>
          \<lparr>p_authorId = authorId, p_content = content, p_mediaUrl = mediaUrl,
           p_mediaType = mediaType, p_likes = 0, p_likedBy = [], p_commentCount = 0,
           p_createdAt = now\<rparr>)\<rparr>"

definition convex_likePost :: "convex_db \<Rightarrow> string \<Rightarrow> string \<Rightarrow> convex_error + convex_db" where
  "convex_likePost db postId userId =
     (case cx_posts db postId of
        None \<Rightarrow> Inl (Error ''Post not found'')
      | Some post \<Rightarrow>
          let hasLiked = (userId \<in> set (p_likedBy post)) in
          if hasLiked then
            Inr (db\<lparr>cx_posts := (cx_posts db)(postId \<mapsto>
                   post\<lparr>p_likes := p_likes post - 1,
                        p_likedBy := filter (\<lambda>i. i \<noteq> userId) (p_likedBy post)\<rparr>)\<rparr>)
          else
            Inr (db\<lparr>cx_posts := (cx_posts db)(postId \<mapsto>
                   post\<lparr>p_likes := p_likes post + 1,
                        p_likedBy := p_likedBy post @ [userId]\<rparr>)\<rparr>))"

definition convex_createComment ::
  "string \<Rightarrow> int \<Rightarrow> convex_db \<Rightarrow> string \<Rightarrow> string \<Rightarrow> string \<Rightarrow> convex_db" where
  "convex_createComment newId now db postId authorId content =
     (let db1 = db\<lparr>cx_comments := (cx_comments db)(newId \<mapsto>
                   \<lparr>c_postId = postId, c_authorId = authorId, c_content = content,
                    c_likes = 0, c_likedBy = [], c_createdAt = now\<rparr>)\<rparr>
      in case cx_posts db1 postId of
           Some post \<Rightarrow>
             db1\<lparr>cx_posts := (cx_posts db1)(postId \<mapsto>
                   post\<lparr>p_commentCount := p_commentCount post + 1\<rparr>)\<rparr>
         | None \<Rightarrow> db1)"

definition convex_likeComment ::
  "convex_db \<Rightarrow> string \<Rightarrow> string \<Rightarrow> convex_error + convex_db" where
  "convex_likeComment db commentId userId =
     (case cx_comments db commentId of
        None \<Rightarrow> Inl (Error ''Comment not found'')
      | Some comment \<Rightarrow>
          let hasLiked = (userId \<in> set (c_likedBy comment)) in
          if hasLiked then
            Inr (db\<lparr>cx_comments := (cx_comments db)(commentId \<mapsto>
                   comment\<lparr>c_likes := c_likes comment - 1,
                           c_likedBy := filter (\<lambda>i. i \<noteq> userId) (c_likedBy comment)\<rparr>)\<rparr>)
          else
            Inr (db\<lparr>cx_comments := (cx_comments db)(commentId \<mapsto>
                   comment\<lparr>c_likes := c_likes comment + 1,
                           c_likedBy := c_likedBy comment @ [userId]\<rparr>)\<rparr>))"

definition convex_deleteComment ::
  "convex_db \<Rightarrow> string \<Rightarrow> string \<Rightarrow> convex_error + convex_db" where
  "convex_deleteComment db commentId userId =
     (case cx_comments db commentId of
        None \<Rightarrow> Inl (Error ''Comment not found'')
      | Some comment \<Rightarrow>
          if c_authorId comment \<noteq> userId then Inl (Error ''Insufficient permissions'')
          else
            let postId = c_postId comment;
                db1 = db\<lparr>cx_comments := (cx_comments db)(commentId := None)\<rparr>
            in (case cx_posts db1 postId of
                  Some post \<Rightarrow>
                    Inr (db1\<lparr>cx_posts := (cx_posts db1)(postId \<mapsto>
                           post\<lparr>p_commentCount := max 0 (p_commentCount post - 1)\<rparr>)\<rparr>)
                | None \<Rightarrow> Inr db1))"

text \<open>The database after a mutation: its writes when it returned, nothing when it threw.\<close>

definition committed :: "convex_db \<Rightarrow> convex_error + convex_db \<Rightarrow> convex_db" where
  "committed db r = (case r of Inl e \<Rightarrow> db | Inr db' \<Rightarrow> db')"

section \<open>Convex queries (convex/schema.ts, queries part)\<close>

text \<open>
  \<^verbatim>\<open>getConversation\<close>: two filtered scans of the message table, each collected in
  the table's order, concatenated (\<^verbatim>\<open>[...messages, ...messages2]\<close>) and sorted with
  \<^verbatim>\<open>(a, b) => a.timestamp - b.timestamp\<close>. JavaScript's \<^verbatim>\<open>sort\<close> is stable, as
  \<open>sort_key\<close> is. The filters are written
  \<^verbatim>\<open>q.and(q.eq('senderId', args.user1Id), q.eq('recipientIds', args.user2Id))\<close>:
  both arguments of each \<^verbatim>\<open>q.eq\<close> are plain strings (a field of the document would be
  \<^verbatim>\<open>q.field('senderId')\<close>, which the source does not write), so \<^verbatim>\<open>q.eq\<close> compares
  the string \<^verbatim>\<open>'senderId'\<close> with the id, the same on every document.
\<close>

definition q_eq :: "string \<Rightarrow> string \<Rightarrow> bool" where
  "q_eq l r = (l = r)"

definition getConversation :: "convex_db \<Rightarrow> string \<Rightarrow> string \<Rightarrow> cx_message list" where
  "getConversation db user1Id user2Id =
     (let messages = filter (\<lambda>d. q_eq ''senderId'' user1Id \<and> q_eq ''recipientIds'' user2Id)
                        (cx_messages db);
          messages2 = filter (\<lambda>d. q_eq ''senderId'' user2Id \<and> q_eq ''recipientIds'' user1Id)
                        (cx_messages db);
          allMessages = sort_key cm_timestamp (messages @ messages2)
      in allMessages)"

section \<open>Reachable states of the Convex mutations\<close>

text \<open>
  A Convex mutation is a transaction, so the states of the Convex database are those the
  mutations reach one after the other from a database with no post and no comment, for
  every argument, generated id and clock value.
\<close>

inductive convex_reachable :: "convex_db \<Rightarrow> bool" where
  cx_init: "cx_posts db = Map.empty \<Longrightarrow> cx_comments db = Map.empty \<Longrightarrow> convex_reachable db"
| cx_reach_createPost:
    "convex_reachable db \<Longrightarrow>
     convex_reachable (convex_createPost newId now db authorId content mediaUrl mediaType)"
| cx_reach_likePost:
    "convex_reachable db \<Longrightarrow> convex_reachable (committed db (convex_likePost db postId userId))"
| cx_reach_createComment:
    "convex_reachable db \<Longrightarrow>
     convex_reachable (convex_createComment newId now db postId authorId content)"
| cx_reach_likeComment:
    "convex_reachable db \<Longrightarrow>
     convex_reachable (committed db (convex_likeComment db commentId userId))"

section \<open>Concrete runs\<close>

text \<open>
  States used as concrete inputs below: the seeded store after \<^verbatim>\<open>student1\<close> has
  created the post \<^verbatim>\<open>p1\<close>, then after \<^verbatim>\<open>student2\<close> has liked it, or has
  commented on it and liked the comment; and the Convex database after a first post, or a
  first comment.
\<close>

definition p1_new :: post where
  "p1_new = \<lparr>p_authorId = ''student1'', p_content = ''hello'', p_mediaUrl = None,
     p_mediaType = None, p_likes = 0, p_likedBy = [], p_commentCount = 0, p_createdAt = 10\<rparr>"

definition c1_new :: comment where
  "c1_new = \<lparr>c_postId = ''p1'', c_authorId = ''student1'', c_content = ''first'',
     c_likes = 0, c_likedBy = [], c_createdAt = 11\<rparr>"

definition with_post :: store where
  "with_post = fst (createPost None ''p1'' 10 seed (Some student1) (Some ''hello'') None)"

definition liked_once :: store where
  "liked_once = fst (likePost None with_post (Some student2) ''p1'')"

definition with_comment :: store where
  "with_comment =
     fst (createComment None ''c1'' 11 with_post (Some student2) ''p1'' (Some ''first''))"

definition c1_row :: comment where
  "c1_row = \<lparr>c_postId = ''p1'', c_authorId = ''student2'', c_content = ''first'',
     c_likes = 0, c_likedBy = [], c_createdAt = 11\<rparr>"

definition comment_liked_once :: store where
  "comment_liked_once = fst (likeComment None with_comment (Some student2) ''c1'')"

definition convex_with_post :: convex_db where
  "convex_with_post = convex_createPost ''p1'' 10 convex_empty ''student1'' ''hello'' None None"

definition convex_with_comment :: convex_db where
  "convex_with_comment = convex_createComment ''c1'' 11 convex_empty ''p1'' ''student1'' ''first''"

text \<open>Two request bodies: a group message to the students, and a message to two users.\<close>

definition teacher_to_students :: send_body where
  "teacher_to_students = \<lparr>b_content = Some ''Class at 9'', b_targetRole = Some ''STUDENT'',
     b_targetBranch = None, b_recipientIds = None\<rparr>"

definition to_two_users :: send_body where
  "to_two_users = \<lparr>b_content = Some ''Hello'', b_targetRole = None,
     b_targetBranch = None, b_recipientIds = Some [''teacher1'', ''official'']\<rparr>"


text \<open>
  A thread of three messages between \<^verbatim>\<open>student1\<close> and \<^verbatim>\<open>student2\<close>, inserted
  latest first, in the Convex database and in the Express store.
\<close>

definition cx_msg :: "string \<Rightarrow> string \<Rightarrow> string \<Rightarrow> int \<Rightarrow> cx_message" where
  "cx_msg ident sender recipient t =
     \<lparr>cm_id = ident, cm_senderId = sender, cm_content = ''hi'', cm_targetRole = None,
      cm_targetBranch = None, cm_recipientIds = [recipient], cm_isRead = False,
      cm_timestamp = t\<rparr>"

definition ex_msg :: "string \<Rightarrow> string \<Rightarrow> string \<Rightarrow> int \<Rightarrow> message" where
  "ex_msg ident sender recipient t =
     \<lparr>m_id = ident, m_senderId = sender, m_content = ''hi'', m_messageType = ''INDIVIDUAL'',
      m_targetRole = None, m_targetBranch = None, m_recipients = [recipient],
      m_isRead = False, m_createdAt = t\<rparr>"

definition thread_db :: convex_db where
  "thread_db = convex_empty\<lparr>cx_messages :=
     [cx_msg ''m3'' ''student1'' ''student2'' 30, cx_msg ''m1'' ''student1'' ''student2'' 10,
      cx_msg ''m2'' ''student2'' ''student1'' 20]\<rparr>"

definition thread_store :: store where
  "thread_store = seed\<lparr>messages :=
     [ex_msg ''m3'' ''student1'' ''student2'' 30, ex_msg ''m1'' ''student1'' ''student2'' 10,
      ex_msg ''m2'' ''student2'' ''student1'' 20]\<rparr>"

section \<open>Properties\<close>

lemmas seed_defs =
  seed_def official_def teacher1_def teacher2_def student1_def student2_def student3_def
  convex_empty_def

subsection \<open>Permission rules\<close>

text \<open>
  C1. An OFFICIAL sender is always permitted, whatever the target role and branch. A
  TEACHER sender is permitted exactly when the target role is STUDENT and the target
  branch equals the sender's branch. A STUDENT sender is permitted exactly when the
  target role is STUDENT, whatever the branch, so TEACHER and OFFICIAL targets are
  denied. Every other sender role is denied. The function is a HOL function of its three
  arguments: its result depends on nothing else and it changes nothing.
\<close>

theorem validateMessagePermissions_rules:
  "(u_role sender = ''OFFICIAL'' \<longrightarrow> validateMessagePermissions sender targetRole targetBranch)
   \<and> (u_role sender = ''TEACHER'' \<longrightarrow>
        validateMessagePermissions sender targetRole targetBranch
          = (targetRole = ''STUDENT'' \<and> targetBranch = u_branch sender))
   \<and> (u_role sender = ''STUDENT'' \<longrightarrow>
        validateMessagePermissions sender targetRole targetBranch = (targetRole = ''STUDENT'')
        \<and> \<not> validateMessagePermissions sender ''TEACHER'' targetBranch
        \<and> \<not> validateMessagePermissions sender ''OFFICIAL'' targetBranch)
   \<and> (u_role sender \<noteq> ''OFFICIAL'' \<and> u_role sender \<noteq> ''TEACHER'' \<and> u_role sender \<noteq> ''STUDENT''
        \<longrightarrow> \<not> validateMessagePermissions sender targetRole targetBranch)"
  by (simp add: validateMessagePermissions_def)

theorem validateMessagePermissions_rules_witness:
  "validateMessagePermissions \<lparr>u_id = ''o1'', u_role = ''OFFICIAL'', u_branch = None\<rparr>
      ''TEACHER'' (Some ''IT'')
   \<and> validateMessagePermissions \<lparr>u_id = ''t1'', u_role = ''TEACHER'', u_branch = Some ''CSE''\<rparr>
      ''STUDENT'' (Some ''CSE'')
   \<and> \<not> validateMessagePermissions \<lparr>u_id = ''t1'', u_role = ''TEACHER'', u_branch = Some ''CSE''\<rparr>
      ''STUDENT'' (Some ''IT'')
   \<and> \<not> validateMessagePermissions \<lparr>u_id = ''t1'', u_role = ''TEACHER'', u_branch = Some ''CSE''\<rparr>
      ''TEACHER'' (Some ''CSE'')
   \<and> validateMessagePermissions \<lparr>u_id = ''s1'', u_role = ''STUDENT'', u_branch = Some ''CSE''\<rparr>
      ''STUDENT'' (Some ''IT'')
   \<and> \<not> validateMessagePermissions \<lparr>u_id = ''s1'', u_role = ''STUDENT'', u_branch = Some ''CSE''\<rparr>
      ''TEACHER'' (Some ''CSE'')
   \<and> \<not> validateMessagePermissions \<lparr>u_id = ''g1'', u_role = ''GUEST'', u_branch = None\<rparr>
      ''STUDENT'' None"
  using
    validateMessagePermissions_rules
      [of "\<lparr>u_id = ''o1'', u_role = ''OFFICIAL'', u_branch = None\<rparr>" "''TEACHER''" "Some ''IT''"]
    validateMessagePermissions_rules
      [of "\<lparr>u_id = ''t1'', u_role = ''TEACHER'', u_branch = Some ''CSE''\<rparr>" "''STUDENT''" "Some ''CSE''"]
    validateMessagePermissions_rules
      [of "\<lparr>u_id = ''t1'', u_role = ''TEACHER'', u_branch = Some ''CSE''\<rparr>" "''STUDENT''" "Some ''IT''"]
    validateMessagePermissions_rules
      [of "\<lparr>u_id = ''t1'', u_role = ''TEACHER'', u_branch = Some ''CSE''\<rparr>" "''TEACHER''" "Some ''CSE''"]
    validateMessagePermissions_rules
      [of "\<lparr>u_id = ''s1'', u_role = ''STUDENT'', u_branch = Some ''CSE''\<rparr>" "''STUDENT''" "Some ''IT''"]
    validateMessagePermissions_rules
      [of "\<lparr>u_id = ''s1'', u_role = ''STUDENT'', u_branch = Some ''CSE''\<rparr>" "''TEACHER''" "Some ''CSE''"]
    validateMessagePermissions_rules
      [of "\<lparr>u_id = ''g1'', u_role = ''GUEST'', u_branch = None\<rparr>" "''STUDENT''" "None"]
  by simp

subsection \<open>Likes and comment counts\<close>

lemma filter_neq_absent: "u \<notin> set xs \<Longrightarrow> filter (\<lambda>x. x \<noteq> u) xs = xs"
  by (induction xs) auto

lemma length_filter_neq:
  "distinct xs \<Longrightarrow> u \<in> set xs \<Longrightarrow>
   int (length (filter (\<lambda>x. x \<noteq> u) xs)) = int (length xs) - 1"
  by (induction xs) (auto simp: filter_neq_absent)

lemmas like_defs =
  likePost_def likePost_find_def likePost_update_def
  likeComment_def likeComment_find_def likeComment_update_def

text \<open>
  The Convex mutations keep, on every row, the counter equal to the length of
  \<^verbatim>\<open>likedBy\<close> and \<^verbatim>\<open>likedBy\<close> free of repetitions, so the counter is the number
  of ids.
\<close>

lemma convex_reachable_likes:
  "convex_reachable db \<Longrightarrow>
     (\<forall>i p. cx_posts db i = Some p \<longrightarrow>
        p_likes p = int (length (p_likedBy p)) \<and> distinct (p_likedBy p))
   \<and> (\<forall>i c. cx_comments db i = Some c \<longrightarrow>
        c_likes c = int (length (c_likedBy c)) \<and> distinct (c_likedBy c))"
proof (induction rule: convex_reachable.induct)
  case (cx_init db)
  then show ?case by simp
next
  case (cx_reach_createPost db newId now authorId content mediaUrl mediaType)
  then show ?case by (auto simp: convex_createPost_def)
next
  case (cx_reach_likePost db postId userId)
  then show ?case
    by (auto simp: convex_likePost_def committed_def Let_def length_filter_neq
        split: option.splits if_splits)
next
  case (cx_reach_createComment db newId now postId authorId content)
  then show ?case
    by (auto simp: convex_createComment_def Let_def split: option.splits if_splits)
next
  case (cx_reach_likeComment db commentId userId)
  then show ?case
    by (auto simp: convex_likeComment_def committed_def Let_def length_filter_neq
        split: option.splits if_splits)
qed

lemma with_post_p1: "posts with_post ''p1'' = Some p1_new"
  by (simp add: with_post_def p1_new_def createPost_def z_string_min1_def Let_def seed_defs
      default_likes_def default_likedBy_def default_commentCount_def)

lemma convex_with_comment_c1: "cx_comments convex_with_comment ''c1'' = Some c1_new"
  by (simp add: convex_with_comment_def c1_new_def convex_createComment_def Let_def seed_defs)

lemma liked_once_p1:
  "posts liked_once ''p1'' = Some (p1_new\<lparr>p_likes := 1, p_likedBy := [''student2'']\<rparr>)"
  by (simp add: liked_once_def like_defs with_post_p1 Let_def p1_new_def student2_def)

lemma with_comment_c1: "comments with_comment ''c1'' = Some c1_row"
  by (simp add: with_comment_def createComment_def with_post_p1 z_string_min1_def Let_def
      default_likes_def default_likedBy_def c1_row_def student2_def)
    (simp add: with_post_def createPost_def z_string_min1_def seed_defs)

lemma convex_with_post_p1: "cx_posts convex_with_post ''p1'' = Some p1_new"
  by (simp add: convex_with_post_def convex_createPost_def p1_new_def)

text \<open>
  C2. In every state the engagement operations reach, every post and every comment has
  \<^verbatim>\<open>likes\<close> equal to the number of user ids in \<^verbatim>\<open>likedBy\<close>. The Convex
  mutations keep this (lemma \<open>convex_reachable_likes\<close>). The Express handlers lose it
  when two like requests on one post overlap, since each update is built from the row
  its own request read. On the post \<^verbatim>\<open>p1\<close> liked by \<^verbatim>\<open>student2\<close>: the unlike of
  \<^verbatim>\<open>student2\<close> and the like of \<^verbatim>\<open>student3\<close> both read \<^verbatim>\<open>likedBy = [student2]\<close>;
  the like is written, then the unlike, which sets \<^verbatim>\<open>likedBy\<close> to the array filtered
  from the row it read: both are answered 200 and the post has \<^verbatim>\<open>likes = 1\<close> and an
  empty \<^verbatim>\<open>likedBy\<close>. On the fresh post: two like requests of \<^verbatim>\<open>student2\<close> both
  read the empty array and both push, leaving \<^verbatim>\<open>likes = 2\<close> for one user id. The
  first run on the comment \<^verbatim>\<open>c1\<close> ends the same way.
\<close>

theorem overlapping_likes_desynchronise:
  "likePost_find None liked_once (Some student2) ''p1''
     = Inr (student2, p1_new\<lparr>p_likes := 1, p_likedBy := [''student2'']\<rparr>)
   \<and> likePost_find None liked_once (Some student3) ''p1''
     = Inr (student3, p1_new\<lparr>p_likes := 1, p_likedBy := [''student2'']\<rparr>)
   \<and> likePost_update None liked_once student3 ''p1''
        (p1_new\<lparr>p_likes := 1, p_likedBy := [''student2'']\<rparr>)
     = (with_post\<lparr>posts := (posts with_post)(''p1'' \<mapsto>
          p1_new\<lparr>p_likes := 2, p_likedBy := [''student2'', ''student3'']\<rparr>)\<rparr>,
        Response 200 ''Post liked'')
   \<and> likePost_update None
        (fst (likePost_update None liked_once student3 ''p1''
           (p1_new\<lparr>p_likes := 1, p_likedBy := [''student2'']\<rparr>)))
        student2 ''p1'' (p1_new\<lparr>p_likes := 1, p_likedBy := [''student2'']\<rparr>)
     = (with_post\<lparr>posts := (posts with_post)(''p1'' \<mapsto>
          p1_new\<lparr>p_likes := 1, p_likedBy := []\<rparr>)\<rparr>,
        Response 200 ''Post unliked'')
   \<and> likePost_find None with_post (Some student2) ''p1'' = Inr (student2, p1_new)
   \<and> likePost_update None (fst (likePost_update None with_post student2 ''p1'' p1_new))
        student2 ''p1'' p1_new
     = (with_post\<lparr>posts := (posts with_post)(''p1'' \<mapsto>
          p1_new\<lparr>p_likes := 2, p_likedBy := [''student2'', ''student2'']\<rparr>)\<rparr>,
        Response 200 ''Post liked'')
   \<and> card (set [''student2'', ''student2'']) = 1
   \<and> likeComment_find None comment_liked_once (Some student2) ''c1''
     = Inr (student2, c1_row\<lparr>c_likes := 1, c_likedBy := [''student2'']\<rparr>)
   \<and> likeComment_find None comment_liked_once (Some student3) ''c1''
     = Inr (student3, c1_row\<lparr>c_likes := 1, c_likedBy := [''student2'']\<rparr>)
   \<and> likeComment_update None
        (fst (likeComment_update None comment_liked_once student3 ''c1''
           (c1_row\<lparr>c_likes := 1, c_likedBy := [''student2'']\<rparr>)))
        student2 ''c1'' (c1_row\<lparr>c_likes := 1, c_likedBy := [''student2'']\<rparr>)
     = (with_comment\<lparr>comments := (comments with_comment)(''c1'' \<mapsto>
          c1_row\<lparr>c_likes := 1, c_likedBy := []\<rparr>)\<rparr>,
        Response 200 ''Comment unliked'')"
proof -
  have s: "liked_once = with_post\<lparr>posts := (posts with_post)(''p1'' \<mapsto>
      p1_new\<lparr>p_likes := 1, p_likedBy := [''student2'']\<rparr>)\<rparr>"
    by (simp add: liked_once_def like_defs with_post_p1 Let_def p1_new_def student2_def)
  have 1: "likePost_find None liked_once (Some student2) ''p1''
     = Inr (student2, p1_new\<lparr>p_likes := 1, p_likedBy := [''student2'']\<rparr>)"
    "likePost_find None liked_once (Some student3) ''p1''
     = Inr (student3, p1_new\<lparr>p_likes := 1, p_likedBy := [''student2'']\<rparr>)"
    by (simp_all add: likePost_find_def liked_once_p1)
  have 2: "likePost_update None liked_once student3 ''p1''
        (p1_new\<lparr>p_likes := 1, p_likedBy := [''student2'']\<rparr>)
     = (with_post\<lparr>posts := (posts with_post)(''p1'' \<mapsto>
          p1_new\<lparr>p_likes := 2, p_likedBy := [''student2'', ''student3'']\<rparr>)\<rparr>,
        Response 200 ''Post liked'')"
    by (simp add: s likePost_update_def Let_def student3_def p1_new_def)
  have 3: "likePost_update None
        (fst (likePost_update None liked_once student3 ''p1''
           (p1_new\<lparr>p_likes := 1, p_likedBy := [''student2'']\<rparr>)))
        student2 ''p1'' (p1_new\<lparr>p_likes := 1, p_likedBy := [''student2'']\<rparr>)
     = (with_post\<lparr>posts := (posts with_post)(''p1'' \<mapsto>
          p1_new\<lparr>p_likes := 1, p_likedBy := []\<rparr>)\<rparr>,
        Response 200 ''Post unliked'')"
    by (simp add: 2) (simp add: likePost_update_def Let_def student2_def p1_new_def)
  have 4: "likePost_find None with_post (Some student2) ''p1'' = Inr (student2, p1_new)"
    by (simp add: likePost_find_def with_post_p1)
  have 5: "likePost_update None (fst (likePost_update None with_post student2 ''p1'' p1_new))
        student2 ''p1'' p1_new
     = (with_post\<lparr>posts := (posts with_post)(''p1'' \<mapsto>
          p1_new\<lparr>p_likes := 2, p_likedBy := [''student2'', ''student2'']\<rparr>)\<rparr>,
        Response 200 ''Post liked'')"
    by (simp add: likePost_update_def Let_def with_post_p1 student2_def p1_new_def)
  have t: "comment_liked_once = with_comment\<lparr>comments := (comments with_comment)(''c1'' \<mapsto>
      c1_row\<lparr>c_likes := 1, c_likedBy := [''student2'']\<rparr>)\<rparr>"
    by (simp add: comment_liked_once_def like_defs with_comment_c1 Let_def c1_row_def
        student2_def)
  have 6: "likeComment_find None comment_liked_once (Some student2) ''c1''
     = Inr (student2, c1_row\<lparr>c_likes := 1, c_likedBy := [''student2'']\<rparr>)"
    "likeComment_find None comment_liked_once (Some student3) ''c1''
     = Inr (student3, c1_row\<lparr>c_likes := 1, c_likedBy := [''student2'']\<rparr>)"
    by (simp_all add: likeComment_find_def t)
  have 7: "likeComment_update None
        (fst (likeComment_update None comment_liked_once student3 ''c1''
           (c1_row\<lparr>c_likes := 1, c_likedBy := [''student2'']\<rparr>)))
        student2 ''c1'' (c1_row\<lparr>c_likes := 1, c_likedBy := [''student2'']\<rparr>)
     = (with_comment\<lparr>comments := (comments with_comment)(''c1'' \<mapsto>
          c1_row\<lparr>c_likes := 1, c_likedBy := []\<rparr>)\<rparr>,
        Response 200 ''Comment unliked'')"
    by (simp add: t likeComment_update_def Let_def student2_def student3_def c1_row_def)
  have 8: "card (set [''student2'', ''student2'']) = 1" by simp
  from 1 2 3 4 5 6 7 8 show ?thesis by (intro conjI)
qed

text \<open>
  C3. A like request of a user whose id is in \<^verbatim>\<open>likedBy\<close> removes the id and
  decrements \<^verbatim>\<open>likes\<close> by 1 (and answers "unliked"); otherwise it appends the id and
  increments \<^verbatim>\<open>likes\<close> by 1. So a user who has liked cannot like again before
  unliking. Two requests of one user who had not liked give back the store as it was, in
  particular from \<^verbatim>\<open>likes = 0, likedBy = []\<close>; from there a request of one user
  and a request of another give \<^verbatim>\<open>likes = 2\<close> and both ids. This holds of the four
  toggles, each applied as a whole: the Express \<^verbatim>\<open>likePost\<close> and
  \<^verbatim>\<open>likeComment\<close>, the Convex \<^verbatim>\<open>likePost\<close> and \<^verbatim>\<open>likeComment\<close>. Under the
  Convex mutations no \<^verbatim>\<open>likedBy\<close> ever holds an id twice.
\<close>

theorem toggle_alternates:
  "(posts st i = Some p \<longrightarrow>
      (u_id u \<in> set (p_likedBy p) \<longrightarrow>
         likePost None st (Some u) i =
           (st\<lparr>posts := (posts st)(i \<mapsto> p\<lparr>p_likes := p_likes p - 1,
                       p_likedBy := filter (\<lambda>x. x \<noteq> u_id u) (p_likedBy p)\<rparr>)\<rparr>,
            Response 200 ''Post unliked'')
         \<and> u_id u \<notin> set (filter (\<lambda>x. x \<noteq> u_id u) (p_likedBy p)))
    \<and> (u_id u \<notin> set (p_likedBy p) \<longrightarrow>
         likePost None st (Some u) i =
           (st\<lparr>posts := (posts st)(i \<mapsto> p\<lparr>p_likes := p_likes p + 1,
                       p_likedBy := p_likedBy p @ [u_id u]\<rparr>)\<rparr>,
            Response 200 ''Post liked'')
         \<and> fst (likePost None (fst (likePost None st (Some u) i)) (Some u) i) = st)
    \<and> (p_likes p = 0 \<and> p_likedBy p = [] \<and> u_id u \<noteq> u_id u' \<longrightarrow>
         posts (fst (likePost None (fst (likePost None st (Some u) i)) (Some u') i)) i
           = Some (p\<lparr>p_likes := 2, p_likedBy := [u_id u, u_id u']\<rparr>)))
   \<and> (comments st k = Some c \<longrightarrow>
      (u_id u \<in> set (c_likedBy c) \<longrightarrow>
         likeComment None st (Some u) k =
           (st\<lparr>comments := (comments st)(k \<mapsto> c\<lparr>c_likes := c_likes c - 1,
                       c_likedBy := filter (\<lambda>x. x \<noteq> u_id u) (c_likedBy c)\<rparr>)\<rparr>,
            Response 200 ''Comment unliked'')
         \<and> u_id u \<notin> set (filter (\<lambda>x. x \<noteq> u_id u) (c_likedBy c)))
    \<and> (u_id u \<notin> set (c_likedBy c) \<longrightarrow>
         likeComment None st (Some u) k =
           (st\<lparr>comments := (comments st)(k \<mapsto> c\<lparr>c_likes := c_likes c + 1,
                       c_likedBy := c_likedBy c @ [u_id u]\<rparr>)\<rparr>,
            Response 200 ''Comment liked'')
         \<and> fst (likeComment None (fst (likeComment None st (Some u) k)) (Some u) k) = st)
    \<and> (c_likes c = 0 \<and> c_likedBy c = [] \<and> u_id u \<noteq> u_id u' \<longrightarrow>
         comments (fst (likeComment None (fst (likeComment None st (Some u) k)) (Some u') k)) k
           = Some (c\<lparr>c_likes := 2, c_likedBy := [u_id u, u_id u']\<rparr>)))
   \<and> (cx_posts db j = Some q \<longrightarrow>
      (userId \<in> set (p_likedBy q) \<longrightarrow>
         convex_likePost db j userId =
           Inr (db\<lparr>cx_posts := (cx_posts db)(j \<mapsto> q\<lparr>p_likes := p_likes q - 1,
                       p_likedBy := filter (\<lambda>x. x \<noteq> userId) (p_likedBy q)\<rparr>)\<rparr>)
         \<and> userId \<notin> set (filter (\<lambda>x. x \<noteq> userId) (p_likedBy q)))
    \<and> (userId \<notin> set (p_likedBy q) \<longrightarrow>
         convex_likePost db j userId =
           Inr (db\<lparr>cx_posts := (cx_posts db)(j \<mapsto> q\<lparr>p_likes := p_likes q + 1,
                       p_likedBy := p_likedBy q @ [userId]\<rparr>)\<rparr>)
         \<and> committed (committed db (convex_likePost db j userId))
              (convex_likePost (committed db (convex_likePost db j userId)) j userId) = db)
    \<and> (p_likes q = 0 \<and> p_likedBy q = [] \<and> userId \<noteq> userId' \<longrightarrow>
         cx_posts (committed (committed db (convex_likePost db j userId))
            (convex_likePost (committed db (convex_likePost db j userId)) j userId')) j
           = Some (q\<lparr>p_likes := 2, p_likedBy := [userId, userId']\<rparr>))
    \<and> (convex_reachable db \<longrightarrow> distinct (p_likedBy q)))
   \<and> (cx_comments db l = Some d \<longrightarrow>
      (userId \<in> set (c_likedBy d) \<longrightarrow>
         convex_likeComment db l userId =
           Inr (db\<lparr>cx_comments := (cx_comments db)(l \<mapsto> d\<lparr>c_likes := c_likes d - 1,
                       c_likedBy := filter (\<lambda>x. x \<noteq> userId) (c_likedBy d)\<rparr>)\<rparr>)
         \<and> userId \<notin> set (filter (\<lambda>x. x \<noteq> userId) (c_likedBy d)))
    \<and> (userId \<notin> set (c_likedBy d) \<longrightarrow>
         convex_likeComment db l userId =
           Inr (db\<lparr>cx_comments := (cx_comments db)(l \<mapsto> d\<lparr>c_likes := c_likes d + 1,
                       c_likedBy := c_likedBy d @ [userId]\<rparr>)\<rparr>)
         \<and> committed (committed db (convex_likeComment db l userId))
              (convex_likeComment (committed db (convex_likeComment db l userId)) l userId) = db)
    \<and> (c_likes d = 0 \<and> c_likedBy d = [] \<and> userId \<noteq> userId' \<longrightarrow>
         cx_comments (committed (committed db (convex_likeComment db l userId))
            (convex_likeComment (committed db (convex_likeComment db l userId)) l userId')) l
           = Some (d\<lparr>c_likes := 2, c_likedBy := [userId, userId']\<rparr>))
    \<and> (convex_reachable db \<longrightarrow> distinct (c_likedBy d)))"
proof -
  have once: "cx_posts db j = Some q \<Longrightarrow> convex_reachable db \<Longrightarrow> distinct (p_likedBy q)"
    "cx_comments db l = Some d \<Longrightarrow> convex_reachable db \<Longrightarrow> distinct (c_likedBy d)"
    using convex_reachable_likes [of db] by blast+
  have express_post:
    "(posts st i = Some p \<longrightarrow>
      (u_id u \<in> set (p_likedBy p) \<longrightarrow>
         likePost None st (Some u) i =
           (st\<lparr>posts := (posts st)(i \<mapsto> p\<lparr>p_likes := p_likes p - 1,
                       p_likedBy := filter (\<lambda>x. x \<noteq> u_id u) (p_likedBy p)\<rparr>)\<rparr>,
            Response 200 ''Post unliked'')
         \<and> u_id u \<notin> set (filter (\<lambda>x. x \<noteq> u_id u) (p_likedBy p)))
    \<and> (u_id u \<notin> set (p_likedBy p) \<longrightarrow>
         likePost None st (Some u) i =
           (st\<lparr>posts := (posts st)(i \<mapsto> p\<lparr>p_likes := p_likes p + 1,
                       p_likedBy := p_likedBy p @ [u_id u]\<rparr>)\<rparr>,
            Response 200 ''Post liked'')
         \<and> fst (likePost None (fst (likePost None st (Some u) i)) (Some u) i) = st)
    \<and> (p_likes p = 0 \<and> p_likedBy p = [] \<and> u_id u \<noteq> u_id u' \<longrightarrow>
         posts (fst (likePost None (fst (likePost None st (Some u) i)) (Some u') i)) i
           = Some (p\<lparr>p_likes := 2, p_likedBy := [u_id u, u_id u']\<rparr>)))"
    by (simp add: like_defs Let_def map_upd_triv filter_neq_absent)
  have express_comment:
    "(comments st k = Some c \<longrightarrow>
      (u_id u \<in> set (c_likedBy c) \<longrightarrow>
         likeComment None st (Some u) k =
           (st\<lparr>comments := (comments st)(k \<mapsto> c\<lparr>c_likes := c_likes c - 1,
                       c_likedBy := filter (\<lambda>x. x \<noteq> u_id u) (c_likedBy c)\<rparr>)\<rparr>,
            Response 200 ''Comment unliked'')
         \<and> u_id u \<notin> set (filter (\<lambda>x. x \<noteq> u_id u) (c_likedBy c)))
    \<and> (u_id u \<notin> set (c_likedBy c) \<longrightarrow>
         likeComment None st (Some u) k =
           (st\<lparr>comments := (comments st)(k \<mapsto> c\<lparr>c_likes := c_likes c + 1,
                       c_likedBy := c_likedBy c @ [u_id u]\<rparr>)\<rparr>,
            Response 200 ''Comment liked'')
         \<and> fst (likeComment None (fst (likeComment None st (Some u) k)) (Some u) k) = st)
    \<and> (c_likes c = 0 \<and> c_likedBy c = [] \<and> u_id u \<noteq> u_id u' \<longrightarrow>
         comments (fst (likeComment None (fst (likeComment None st (Some u) k)) (Some u') k)) k
           = Some (c\<lparr>c_likes := 2, c_likedBy := [u_id u, u_id u']\<rparr>)))"
    by (simp add: like_defs Let_def map_upd_triv filter_neq_absent)
  have convex_post:
    "(cx_posts db j = Some q \<longrightarrow>
      (userId \<in> set (p_likedBy q) \<longrightarrow>
         convex_likePost db j userId =
           Inr (db\<lparr>cx_posts := (cx_posts db)(j \<mapsto> q\<lparr>p_likes := p_likes q - 1,
                       p_likedBy := filter (\<lambda>x. x \<noteq> userId) (p_likedBy q)\<rparr>)\<rparr>)
         \<and> userId \<notin> set (filter (\<lambda>x. x \<noteq> userId) (p_likedBy q)))
    \<and> (userId \<notin> set (p_likedBy q) \<longrightarrow>
         convex_likePost db j userId =
           Inr (db\<lparr>cx_posts := (cx_posts db)(j \<mapsto> q\<lparr>p_likes := p_likes q + 1,
                       p_likedBy := p_likedBy q @ [userId]\<rparr>)\<rparr>)
         \<and> committed (committed db (convex_likePost db j userId))
              (convex_likePost (committed db (convex_likePost db j userId)) j userId) = db)
    \<and> (p_likes q = 0 \<and> p_likedBy q = [] \<and> userId \<noteq> userId' \<longrightarrow>
         cx_posts (committed (committed db (convex_likePost db j userId))
            (convex_likePost (committed db (convex_likePost db j userId)) j userId')) j
           = Some (q\<lparr>p_likes := 2, p_likedBy := [userId, userId']\<rparr>))
    \<and> (convex_reachable db \<longrightarrow> distinct (p_likedBy q)))"
    using once(1)
    by (simp add: convex_likePost_def committed_def Let_def map_upd_triv filter_neq_absent)
  have convex_comment:
    "(cx_comments db l = Some d \<longrightarrow>
      (userId \<in> set (c_likedBy d) \<longrightarrow>
         convex_likeComment db l userId =
           Inr (db\<lparr>cx_comments := (cx_comments db)(l \<mapsto> d\<lparr>c_likes := c_likes d - 1,
                       c_likedBy := filter (\<lambda>x. x \<noteq> userId) (c_likedBy d)\<rparr>)\<rparr>)
         \<and> userId \<notin> set (filter (\<lambda>x. x \<noteq> userId) (c_likedBy d)))
    \<and> (userId \<notin> set (c_likedBy d) \<longrightarrow>
         convex_likeComment db l userId =
           Inr (db\<lparr>cx_comments := (cx_comments db)(l \<mapsto> d\<lparr>c_likes := c_likes d + 1,
                       c_likedBy := c_likedBy d @ [userId]\<rparr>)\<rparr>)
         \<and> committed (committed db (convex_likeComment db l userId))
              (convex_likeComment (committed db (convex_likeComment db l userId)) l userId) = db)
    \<and> (c_likes d = 0 \<and> c_likedBy d = [] \<and> userId \<noteq> userId' \<longrightarrow>
         cx_comments (committed (committed db (convex_likeComment db l userId))
            (convex_likeComment (committed db (convex_likeComment db l userId)) l userId')) l
           = Some (d\<lparr>c_likes := 2, c_likedBy := [userId, userId']\<rparr>))
    \<and> (convex_reachable db \<longrightarrow> distinct (c_likedBy d)))"
    using once(2)
    by (simp add: convex_likeComment_def committed_def Let_def map_upd_triv filter_neq_absent)
  show ?thesis
    by (intro conjI) (fact express_post express_comment convex_post convex_comment)+
qed

theorem toggle_alternates_witness:
  "fst (likePost None (fst (likePost None with_post (Some student2) ''p1''))
        (Some student2) ''p1'') = with_post
   \<and> posts (fst (likePost None (fst (likePost None with_post (Some student2) ''p1''))
        (Some student3) ''p1'')) ''p1''
       = Some (p1_new\<lparr>p_likes := 2, p_likedBy := [u_id student2, u_id student3]\<rparr>)
   \<and> fst (likeComment None (fst (likeComment None with_comment (Some student2) ''c1''))
        (Some student2) ''c1'') = with_comment
   \<and> comments (fst (likeComment None (fst (likeComment None with_comment (Some student2) ''c1''))
        (Some student3) ''c1'')) ''c1''
       = Some (c1_row\<lparr>c_likes := 2, c_likedBy := [u_id student2, u_id student3]\<rparr>)
   \<and> committed (committed convex_with_post
          (convex_likePost convex_with_post ''p1'' ''student2''))
        (convex_likePost (committed convex_with_post
          (convex_likePost convex_with_post ''p1'' ''student2'')) ''p1'' ''student2'')
       = convex_with_post
   \<and> cx_posts (committed (committed convex_with_post
          (convex_likePost convex_with_post ''p1'' ''student2''))
        (convex_likePost (committed convex_with_post
          (convex_likePost convex_with_post ''p1'' ''student2'')) ''p1'' ''student3'')) ''p1''
       = Some (p1_new\<lparr>p_likes := 2, p_likedBy := [''student2'', ''student3'']\<rparr>)
   \<and> committed (committed convex_with_comment
          (convex_likeComment convex_with_comment ''c1'' ''student2''))
        (convex_likeComment (committed convex_with_comment
          (convex_likeComment convex_with_comment ''c1'' ''student2'')) ''c1'' ''student2'')
       = convex_with_comment
   \<and> cx_comments (committed (committed convex_with_comment
          (convex_likeComment convex_with_comment ''c1'' ''student2''))
        (convex_likeComment (committed convex_with_comment
          (convex_likeComment convex_with_comment ''c1'' ''student2'')) ''c1'' ''student3'')) ''c1''
       = Some (c1_new\<lparr>c_likes := 2, c_likedBy := [''student2'', ''student3'']\<rparr>)"
proof -
  have fresh: "u_id student2 \<notin> set (p_likedBy p1_new)"
    "p_likes p1_new = 0 \<and> p_likedBy p1_new = [] \<and> u_id student2 \<noteq> u_id student3"
    "u_id student2 \<notin> set (c_likedBy c1_row)"
    "c_likes c1_row = 0 \<and> c_likedBy c1_row = [] \<and> u_id student2 \<noteq> u_id student3"
    by (simp_all add: p1_new_def c1_row_def student2_def student3_def)
  have cfresh: "''student2'' \<notin> set (p_likedBy p1_new)"
    "p_likes p1_new = 0 \<and> p_likedBy p1_new = [] \<and> ''student2'' \<noteq> ''student3''"
    "''student2'' \<notin> set (c_likedBy c1_new)"
    "c_likes c1_new = 0 \<and> c_likedBy c1_new = [] \<and> ''student2'' \<noteq> ''student3''"
    by (simp_all add: p1_new_def c1_new_def)
  note t = toggle_alternates [where st = with_post and i = "''p1''" and p = p1_new
      and u = student2 and u' = student3 and db = convex_with_post and j = "''p1''"
      and q = p1_new and userId = "''student2''" and userId' = "''student3''"]
  note t' = toggle_alternates [where st = with_comment and u = student2 and u' = student3
      and k = "''c1''" and c = c1_row and db = convex_with_comment
      and userId = "''student2''" and userId' = "''student3''" and l = "''c1''" and d = c1_new]
  note ep = t [THEN conjunct1, THEN mp, OF with_post_p1]
  note xp = t [THEN conjunct2, THEN conjunct2, THEN conjunct1, THEN mp, OF convex_with_post_p1]
  note ec = t' [THEN conjunct2, THEN conjunct1, THEN mp, OF with_comment_c1]
  note xc = t' [THEN conjunct2, THEN conjunct2, THEN conjunct2, THEN mp,
      OF convex_with_comment_c1]
  from ep fresh(1,2)
  have a: "fst (likePost None (fst (likePost None with_post (Some student2) ''p1''))
        (Some student2) ''p1'') = with_post"
    "posts (fst (likePost None (fst (likePost None with_post (Some student2) ''p1''))
        (Some student3) ''p1'')) ''p1''
       = Some (p1_new\<lparr>p_likes := 2, p_likedBy := [u_id student2, u_id student3]\<rparr>)"
    by blast+
  from ec fresh(3,4)
  have b: "fst (likeComment None (fst (likeComment None with_comment (Some student2) ''c1''))
        (Some student2) ''c1'') = with_comment"
    "comments (fst (likeComment None (fst (likeComment None with_comment (Some student2) ''c1''))
        (Some student3) ''c1'')) ''c1''
       = Some (c1_row\<lparr>c_likes := 2, c_likedBy := [u_id student2, u_id student3]\<rparr>)"
    by blast+
  from xp cfresh(1,2)
  have c: "committed (committed convex_with_post
          (convex_likePost convex_with_post ''p1'' ''student2''))
        (convex_likePost (committed convex_with_post
          (convex_likePost convex_with_post ''p1'' ''student2'')) ''p1'' ''student2'')
       = convex_with_post"
    "cx_posts (committed (committed convex_with_post
          (convex_likePost convex_with_post ''p1'' ''student2''))
        (convex_likePost (committed convex_with_post
          (convex_likePost convex_with_post ''p1'' ''student2'')) ''p1'' ''student3'')) ''p1''
       = Some (p1_new\<lparr>p_likes := 2, p_likedBy := [''student2'', ''student3'']\<rparr>)"
    by blast+
  from xc cfresh(3,4)
  have d: "committed (committed convex_with_comment
          (convex_likeComment convex_with_comment ''c1'' ''student2''))
        (convex_likeComment (committed convex_with_comment
          (convex_likeComment convex_with_comment ''c1'' ''student2'')) ''c1'' ''student2'')
       = convex_with_comment"
    "cx_comments (committed (committed convex_with_comment
          (convex_likeComment convex_with_comment ''c1'' ''student2''))
        (convex_likeComment (committed convex_with_comment
          (convex_likeComment convex_with_comment ''c1'' ''student2'')) ''c1'' ''student3'')) ''c1''
       = Some (c1_new\<lparr>c_likes := 2, c_likedBy := [''student2'', ''student3'']\<rparr>)"
    by blast+
  from a b c d show ?thesis by (intro conjI)
qed

lemma convex_deleteComment_floor:
  "convex_deleteComment db commentId userId = Inr db' \<Longrightarrow>
   cx_comments db commentId = Some c \<Longrightarrow> cx_posts db' (c_postId c) = Some p' \<Longrightarrow>
   0 \<le> p_commentCount p'"
  by (auto simp: convex_deleteComment_def Let_def split: option.splits if_splits)

text \<open>
  C4. Creating a comment increments the parent post's \<^verbatim>\<open>commentCount\<close> by 1 and
  deleting one decrements it, never below 0. The Convex \<^verbatim>\<open>deleteComment\<close> writes
  \<^verbatim>\<open>Math.max(0, commentCount - 1)\<close> (lemma \<open>convex_deleteComment_floor\<close>); the
  Express \<^verbatim>\<open>deleteComment\<close> decrements without a floor. The run: on the post
  \<^verbatim>\<open>p1\<close>, a \<^verbatim>\<open>createComment\<close> whose row is written and whose increment fails
  (answer 500, the comment stays, the count stays 0), then the author's
  \<^verbatim>\<open>deleteComment\<close>, answered 200: the count is -1.
\<close>

theorem deleteComment_below_zero:
  "snd (createComment (Some Update) ''c1'' 11 with_post (Some student2) ''p1'' (Some ''first''))
     = internal_error
   \<and> comments (fst (createComment (Some Update) ''c1'' 11 with_post (Some student2) ''p1''
        (Some ''first''))) ''c1''
     = Some \<lparr>c_postId = ''p1'', c_authorId = ''student2'', c_content = ''first'',
        c_likes = 0, c_likedBy = [], c_createdAt = 11\<rparr>
   \<and> map_option p_commentCount (posts (fst (createComment (Some Update) ''c1'' 11 with_post
        (Some student2) ''p1'' (Some ''first''))) ''p1'') = Some 0
   \<and> snd (deleteComment None
        (fst (createComment (Some Update) ''c1'' 11 with_post (Some student2) ''p1''
           (Some ''first''))) (Some student2) ''c1'')
     = Response 200 ''Comment deleted successfully''
   \<and> map_option p_commentCount (posts (fst (deleteComment None
        (fst (createComment (Some Update) ''c1'' 11 with_post (Some student2) ''p1''
           (Some ''first''))) (Some student2) ''c1'')) ''p1'') = Some (- 1)"
  by (simp add: with_post_def createPost_def createComment_def deleteComment_def
      z_string_min1_def Let_def seed_defs default_likes_def default_likedBy_def
      default_commentCount_def)

subsection \<open>Sending messages\<close>

lemma connect_others:
  "newId \<notin> m_id ` set ms \<Longrightarrow> map (\<lambda>x. if m_id x = newId then f x else x) ms = ms"
  by (induction ms) auto

lemma sendMessage_created:
  assumes "snd (sendMessage fault newId now st (Some u) body) = Response 201 ''Message sent successfully''"
  shows "messages (fst (sendMessage fault newId now st (Some u) body)) =
           messages st @
             [\<lparr>m_id = newId, m_senderId = u_id u, m_content = the (b_content body),
               m_messageType = fst (sendMessage_recipients (users st) u body),
               m_targetRole = (if truthy (b_targetRole body) then b_targetRole body else None),
               m_targetBranch = (if truthy (b_targetBranch body) then b_targetBranch body else None),
               m_recipients = snd (sendMessage_recipients (users st) u body),
               m_isRead = False, m_createdAt = now\<rparr>]"
  using assms
  by (auto simp: sendMessage_def Let_def internal_error_def connect_others split: if_splits)

text \<open>
  C5. Recipient resolution. When \<^verbatim>\<open>recipientIds\<close> is supplied and not empty the
  message is INDIVIDUAL and its recipients are the supplied ids, whatever the users
  behind them are: the user table is not consulted. Otherwise, when \<^verbatim>\<open>targetRole\<close>
  is supplied, the message is GROUP and its recipients are the users of that role: of the
  target branch when one is given (a non-empty string), of every branch when none is
  given and the sender is an OFFICIAL, of the sender's own branch when none is given and
  the sender is a TEACHER. A message \<^verbatim>\<open>sendMessage\<close> answers 201 for is stored with
  exactly this type and these recipients.
\<close>

theorem recipient_resolution:
  "(b_recipientIds body = Some ids \<and> ids \<noteq> [] \<longrightarrow>
      sendMessage_recipients us sender body = (''INDIVIDUAL'', ids))
   \<and> ((b_recipientIds body = None \<or> b_recipientIds body = Some [])
        \<and> b_targetRole body = Some r \<and> r \<noteq> [] \<longrightarrow>
      fst (sendMessage_recipients us sender body) = ''GROUP''
      \<and> (b_targetBranch body = Some b \<and> b \<noteq> [] \<longrightarrow>
           snd (sendMessage_recipients us sender body)
             = map u_id (filter (\<lambda>x. u_role x = r \<and> u_branch x = Some b) us))
      \<and> (\<not> truthy (b_targetBranch body) \<and> u_role sender = ''OFFICIAL'' \<longrightarrow>
           snd (sendMessage_recipients us sender body)
             = map u_id (filter (\<lambda>x. u_role x = r) us))
      \<and> (\<not> truthy (b_targetBranch body) \<and> u_role sender = ''TEACHER'' \<longrightarrow>
           snd (sendMessage_recipients us sender body)
             = map u_id (filter (\<lambda>x. u_role x = r \<and> u_branch x = u_branch sender) us)))
   \<and> (snd (sendMessage fault newId now st (Some u) body)
         = Response 201 ''Message sent successfully'' \<longrightarrow>
      map (\<lambda>m. (m_id m, m_messageType m, m_recipients m))
          (messages (fst (sendMessage fault newId now st (Some u) body)))
        = map (\<lambda>m. (m_id m, m_messageType m, m_recipients m)) (messages st)
          @ [(newId, sendMessage_recipients (users st) u body)])"
proof -
  have link: "snd (sendMessage fault newId now st (Some u) body)
         = Response 201 ''Message sent successfully'' \<Longrightarrow>
      map (\<lambda>m. (m_id m, m_messageType m, m_recipients m))
          (messages (fst (sendMessage fault newId now st (Some u) body)))
        = map (\<lambda>m. (m_id m, m_messageType m, m_recipients m)) (messages st)
          @ [(newId, sendMessage_recipients (users st) u body)]"
    by (simp add: sendMessage_created)
  have res: "b_recipientIds body = Some ids \<Longrightarrow> ids \<noteq> [] \<Longrightarrow>
      sendMessage_recipients us sender body = (''INDIVIDUAL'', ids)"
    by (simp add: sendMessage_recipients_def)
  have grp: "(b_recipientIds body = None \<or> b_recipientIds body = Some []) \<Longrightarrow>
      b_targetRole body = Some r \<Longrightarrow> r \<noteq> [] \<Longrightarrow>
      sendMessage_recipients us sender body
        = (''GROUP'', map u_id (user_findMany (recipientFilter sender body) us))"
    by (auto simp: sendMessage_recipients_def truthy_def)
  show ?thesis
    using link res grp
    by (auto simp: user_findMany_def recipientFilter_def truthy_def split: option.splits)
qed

lemmas send_defs =
  sendMessage_def sendMessageSchema_def sendMessage_permitted_def
  validateMessagePermissions_def z_string_min1_def truthy_def sendMessage_recipients_def
  user_findMany_def recipientFilter_def internal_error_def Let_def
  teacher_to_students_def to_two_users_def

lemma official_group_sent:
  "sendMessage None ''m1'' 20 seed (Some official) teacher_to_students =
     (seed\<lparr>messages :=
        [\<lparr>m_id = ''m1'', m_senderId = ''official'', m_content = ''Class at 9'',
          m_messageType = ''GROUP'', m_targetRole = Some ''STUDENT'', m_targetBranch = None,
          m_recipients = [''student1'', ''student2'', ''student3''], m_isRead = False,
          m_createdAt = 20\<rparr>]\<rparr>,
      Response 201 ''Message sent successfully'')"
  by (simp add: send_defs seed_defs)

lemma teacher_group_without_branch_denied:
  "sendMessage fault newId now st (Some teacher2) teacher_to_students =
     (st, Response 403 ''Insufficient permissions to send message'')"
  by (simp add: send_defs seed_defs)

theorem recipient_resolution_witness:
  "sendMessage_recipients (users seed) teacher2 teacher_to_students = (''GROUP'', [''student3''])
   \<and> sendMessage_recipients (users seed) official teacher_to_students
       = (''GROUP'', [''student1'', ''student2'', ''student3''])
   \<and> sendMessage_recipients (users seed) student1 to_two_users
       = (''INDIVIDUAL'', [''teacher1'', ''official''])
   \<and> map (\<lambda>m. (m_id m, m_messageType m, m_recipients m))
        (messages (fst (sendMessage None ''m1'' 20 seed (Some official) teacher_to_students)))
       = [(''m1'', ''GROUP'', [''student1'', ''student2'', ''student3''])]"
proof -
  have t: "(b_recipientIds teacher_to_students = None
            \<or> b_recipientIds teacher_to_students = Some [])
           \<and> b_targetRole teacher_to_students = Some ''STUDENT'' \<and> ''STUDENT'' \<noteq> []"
    "\<not> truthy (b_targetBranch teacher_to_students)"
    "u_role teacher2 = ''TEACHER''" "u_role official = ''OFFICIAL''"
    by (simp_all add: teacher_to_students_def truthy_def seed_defs)
  have i: "b_recipientIds to_two_users = Some [''teacher1'', ''official'']
           \<and> [''teacher1'', ''official''] \<noteq> []"
    by (simp add: to_two_users_def)
  have s: "snd (sendMessage None ''m1'' 20 seed (Some official) teacher_to_students)
           = Response 201 ''Message sent successfully''"
    by (simp add: official_group_sent)
  have a: "sendMessage_recipients (users seed) teacher2 teacher_to_students
            = (''GROUP'', [''student3''])"
    using recipient_resolution [where body = teacher_to_students and r = "''STUDENT''"
          and us = "users seed" and sender = teacher2]
      t
    by (simp add: prod_eq_iff seed_defs)
  have b: "sendMessage_recipients (users seed) official teacher_to_students
       = (''GROUP'', [''student1'', ''student2'', ''student3''])"
    using recipient_resolution [where body = teacher_to_students and r = "''STUDENT''"
          and us = "users seed" and sender = official]
      t
    by (simp add: prod_eq_iff seed_defs)
  have c: "sendMessage_recipients (users seed) student1 to_two_users
       = (''INDIVIDUAL'', [''teacher1'', ''official''])"
    using recipient_resolution [where body = to_two_users and ids = "[''teacher1'', ''official'']"
          and us = "users seed" and sender = student1] i
    by blast
  have d: "map (\<lambda>m. (m_id m, m_messageType m, m_recipients m))
        (messages (fst (sendMessage None ''m1'' 20 seed (Some official) teacher_to_students)))
       = [(''m1'', ''GROUP'', [''student1'', ''student2'', ''student3''])]"
    using recipient_resolution [where body = teacher_to_students and fault = None
          and newId = "''m1''" and now = 20 and st = seed and u = official] s b
    by (simp add: seed_def)
  from a b c d show ?thesis by blast
qed

text \<open>
  C10. A send request without \<^verbatim>\<open>targetRole\<close> and \<^verbatim>\<open>targetBranch\<close> is gated by
  \<^verbatim>\<open>validateMessagePermissions(sender, 'STUDENT', null)\<close>. So a TEACHER whose
  branch is not null is answered 403 whoever the listed recipients are, and a STUDENT or
  an OFFICIAL passes the gate whoever they are: the answer is never 403, and it is 201
  when no store call fails, the generated id is new and the listed ids are users.
\<close>

theorem explicit_recipients_gate:
  "(b_targetRole body = None \<and> b_targetBranch body = None \<longrightarrow>
      sendMessage_permitted u body = validateMessagePermissions u ''STUDENT'' None)
   \<and> (sendMessageSchema body \<and> b_targetRole body = None \<and> b_targetBranch body = None
        \<and> u_role u = ''TEACHER'' \<and> u_branch u \<noteq> None \<longrightarrow>
      sendMessage fault newId now st (Some u) body
        = (st, Response 403 ''Insufficient permissions to send message''))
   \<and> (sendMessageSchema body \<and> b_targetRole body = None \<and> b_targetBranch body = None
        \<and> (u_role u = ''STUDENT'' \<or> u_role u = ''OFFICIAL'') \<longrightarrow>
      sendMessage_permitted u body
      \<and> status (snd (sendMessage fault newId now st (Some u) body)) \<noteq> 403
      \<and> (fault = None \<and> newId \<notin> set (map m_id (messages st))
           \<and> b_recipientIds body = Some ids \<and> set ids \<subseteq> set (map u_id (users st)) \<longrightarrow>
         snd (sendMessage fault newId now st (Some u) body)
           = Response 201 ''Message sent successfully''))"
  by (auto simp: sendMessage_def sendMessage_permitted_def validateMessagePermissions_def
      truthy_def internal_error_def Let_def sendMessage_recipients_def)

theorem explicit_recipients_gate_witness:
  "sendMessage None ''m1'' 20 seed (Some teacher1) to_two_users
     = (seed, Response 403 ''Insufficient permissions to send message'')
   \<and> snd (sendMessage None ''m1'' 20 seed (Some student1) to_two_users)
     = Response 201 ''Message sent successfully''
   \<and> snd (sendMessage None ''m1'' 20 seed (Some official) to_two_users)
     = Response 201 ''Message sent successfully''"
proof -
  have b: "sendMessageSchema to_two_users \<and> b_targetRole to_two_users = None
      \<and> b_targetBranch to_two_users = None"
    "b_recipientIds to_two_users = Some [''teacher1'', ''official'']"
    by (simp_all add: to_two_users_def sendMessageSchema_def z_string_min1_def)
  have u: "u_role teacher1 = ''TEACHER'' \<and> u_branch teacher1 \<noteq> None"
    "u_role student1 = ''STUDENT''" "u_role official = ''OFFICIAL''"
    "(None :: db_call option) = None \<and> ''m1'' \<notin> set (map m_id (messages seed))
      \<and> set [''teacher1'', ''official''] \<subseteq> set (map u_id (users seed))"
    by (simp_all add: seed_defs)
  from explicit_recipients_gate [where body = to_two_users and u = teacher1 and fault = None
      and newId = "''m1''" and now = 20 and st = seed] b u
  have 1: "sendMessage None ''m1'' 20 seed (Some teacher1) to_two_users
     = (seed, Response 403 ''Insufficient permissions to send message'')"
    by blast
  from explicit_recipients_gate [where body = to_two_users and u = student1 and fault = None
      and newId = "''m1''" and now = 20 and st = seed and ids = "[''teacher1'', ''official'']"]
    b u
  have 2: "snd (sendMessage None ''m1'' 20 seed (Some student1) to_two_users)
     = Response 201 ''Message sent successfully''"
    by blast
  from explicit_recipients_gate [where body = to_two_users and u = official and fault = None
      and newId = "''m1''" and now = 20 and st = seed and ids = "[''teacher1'', ''official'']"]
    b u
  have 3: "snd (sendMessage None ''m1'' 20 seed (Some official) to_two_users)
     = Response 201 ''Message sent successfully''"
    by blast
  from 1 2 3 show ?thesis by blast
qed

subsection \<open>Notifications\<close>

text \<open>No handler writes to the notification table.\<close>

lemma handlers_leave_notifications:
  "notifications (fst (sendMessage fault newId now st req_user body)) = notifications st"
  "notifications (fst (createPost fault newId now st req_user content upload)) = notifications st"
  "notifications (fst (likePost fault st req_user ident)) = notifications st"
  "notifications (fst (createComment fault newId now st req_user postId content))
     = notifications st"
  "notifications (fst (deleteComment fault st req_user ident)) = notifications st"
  "notifications (fst (likeComment fault st req_user ident)) = notifications st"
  by (simp_all add: sendMessage_def createPost_def like_defs createComment_def
      deleteComment_def Let_def split: option.splits sum.splits prod.splits)

text \<open>
  C6. A GROUP message resolved to N recipients creates N notification records, one per
  recipient, each marked read and deleted on its own; a message resolved to 3 recipients
  creates 3. The code creates none: \<^verbatim>\<open>sendMessage\<close> does not call
  \<^verbatim>\<open>createNotification\<close>, and neither does any other handler (lemma
  \<open>handlers_leave_notifications\<close>). The official's message to the students is answered
  201 and resolved to the three students, and the notification table is as empty as
  before.
\<close>

theorem group_message_no_notification:
  "snd (sendMessage None ''m1'' 20 seed (Some official) teacher_to_students)
     = Response 201 ''Message sent successfully''
   \<and> map m_recipients
        (messages (fst (sendMessage None ''m1'' 20 seed (Some official) teacher_to_students)))
     = [[''student1'', ''student2'', ''student3'']]
   \<and> dom (notifications
        (fst (sendMessage None ''m1'' 20 seed (Some official) teacher_to_students))) = {}
   \<and> card (dom (notifications
        (fst (sendMessage None ''m1'' 20 seed (Some official) teacher_to_students)))) \<noteq> 3"
  by (simp add: official_group_sent) (simp add: seed_def)

text \<open>
  C7. \<^verbatim>\<open>createNotification\<close> never ends with an exception, for any input and
  whether or not the store call fails. When the store call throws, the function writes a
  line to the console and returns with the store unchanged. Users, messages, posts and
  comments are the same after the call as before: what the triggering operation wrote is
  still there.
\<close>

theorem createNotification_never_throws:
  "fst (createNotification fault newId now st userId type referenceId content) = Inr ()
   \<and> (notification_create fault newId now st userId type referenceId content = Inl e \<longrightarrow>
        createNotification fault newId now st userId type referenceId content
          = (Inr (), st, [''Create notification error:'']))
   \<and> users (fst (snd (createNotification fault newId now st userId type referenceId content)))
       = users st
   \<and> messages (fst (snd (createNotification fault newId now st userId type referenceId content)))
       = messages st
   \<and> posts (fst (snd (createNotification fault newId now st userId type referenceId content)))
       = posts st
   \<and> comments (fst (snd (createNotification fault newId now st userId type referenceId content)))
       = comments st"
  by (auto simp: createNotification_def notification_create_def split: sum.splits)

theorem createNotification_never_throws_witness:
  "notification_create (Some Create) ''n1'' 21 with_post ''student1'' ''like'' ''p1''
      ''student2 liked your post'' = Inl PrismaError
   \<and> createNotification (Some Create) ''n1'' 21 with_post ''student1'' ''like'' ''p1''
      ''student2 liked your post'' = (Inr (), with_post, [''Create notification error:''])"
proof -
  have f: "notification_create (Some Create) ''n1'' 21 with_post ''student1'' ''like'' ''p1''
      ''student2 liked your post'' = Inl PrismaError"
    by (simp add: notification_create_def)
  from createNotification_never_throws [where fault = "Some Create" and newId = "''n1''"
      and now = 21 and st = with_post and userId = "''student1''" and type = "''like''"
      and referenceId = "''p1''" and content = "''student2 liked your post''"
      and e = PrismaError] f
  show ?thesis by blast
qed

subsection \<open>Failures and partial writes\<close>




subsection \<open>Conversation threads\<close>

text \<open>
  \<^verbatim>\<open>getConversation\<close> selects nothing unless one of the two ids is the string
  \<^verbatim>\<open>senderId\<close> itself.
\<close>

lemma getConversation_selects_nothing:
  "user1Id \<noteq> ''senderId'' \<Longrightarrow> user2Id \<noteq> ''senderId'' \<Longrightarrow>
   getConversation db user1Id user2Id = []"
  by (simp add: getConversation_def q_eq_def)

lemma three_sorted:
  fixes f :: "'a \<Rightarrow> int"
  assumes "mset xs = {#a, b, c#}" "f a < f b" "f b < f c"
  shows "sort_key f xs = [a, b, c]"
proof (rule sort_key_inj_key_eq)
  show "mset xs = mset [a, b, c]" using assms by simp
  have "set xs = {a, b, c}" using assms(1) by (metis set_mset_add_mset_insert set_mset_empty set_mset_mset)
  then show "inj_on f (set xs)" using assms(2,3) by (auto simp: inj_on_def)
  from assms(2,3) have "f a < f c" by (rule less_trans)
  with assms(2,3) show "sorted (map f [a, b, c])" by (simp add: less_imp_le)
qed

lemma orderBy_three:
  fixes f :: "'a \<Rightarrow> int"
  assumes "mset (ord xs) = mset xs" "sorted (map f (ord xs))"
    "mset xs = {#a, b, c#}" "f a < f b" "f b < f c"
  shows "ord xs = [a, b, c]"
proof -
  have "set xs = {a, b, c}"
    using assms(3) by (metis set_mset_add_mset_insert set_mset_empty set_mset_mset)
  then have "inj_on f (set xs)" using assms(4,5) by (auto simp: inj_on_def)
  with assms(1,2) have "sort_key f xs = ord xs"
    by (intro sort_key_inj_key_eq) simp_all
  with three_sorted [OF assms(3,4,5)] show ?thesis by simp
qed

text \<open>
  The Express \<^verbatim>\<open>getConversationWithUser\<close> does return the thread: the rows of both
  directions, in non-decreasing \<^verbatim>\<open>createdAt\<close>, for every store ordering that returns
  its rows sorted; three messages with increasing times come out in that order whatever
  their order in the table.
\<close>

lemma getConversationWithUser_thread:
  assumes o: "\<forall>xs. mset (orderBy xs) = mset xs \<and> sorted (map m_createdAt (orderBy xs))"
  shows "sorted (map m_createdAt (snd (getConversationWithUser orderBy None st (Some u) userId)))"
    and "set (snd (getConversationWithUser orderBy None st (Some u) userId))
          = {m \<in> set (messages st).
               (m_senderId m = u_id u \<and> userId \<in> set (m_recipients m))
               \<or> (m_senderId m = userId \<and> u_id u \<in> set (m_recipients m))}"
    and "mset (messages st) = {#a, b, c#} \<Longrightarrow>
         m_senderId a = u_id u \<Longrightarrow> userId \<in> set (m_recipients a) \<Longrightarrow>
         m_senderId b = userId \<Longrightarrow> u_id u \<in> set (m_recipients b) \<Longrightarrow>
         m_senderId c = u_id u \<Longrightarrow> userId \<in> set (m_recipients c) \<Longrightarrow>
         m_createdAt a < m_createdAt b \<Longrightarrow> m_createdAt b < m_createdAt c \<Longrightarrow>
         snd (getConversationWithUser orderBy None st (Some u) userId) = [a, b, c]"
proof -
  let ?P = "\<lambda>m. (m_senderId m = u_id u \<and> userId \<in> set (m_recipients m))
                \<or> (m_senderId m = userId \<and> u_id u \<in> set (m_recipients m))"
  have s: "set (orderBy xs) = set xs" for xs using o by (metis set_mset_mset)
  from o show "sorted (map m_createdAt
      (snd (getConversationWithUser orderBy None st (Some u) userId)))"
    by (simp add: getConversationWithUser_def)
  from s show "set (snd (getConversationWithUser orderBy None st (Some u) userId))
          = {m \<in> set (messages st). ?P m}"
    by (simp add: getConversationWithUser_def)
  show "snd (getConversationWithUser orderBy None st (Some u) userId) = [a, b, c]"
    if h: "mset (messages st) = {#a, b, c#}"
      "m_senderId a = u_id u" "userId \<in> set (m_recipients a)"
      "m_senderId b = userId" "u_id u \<in> set (m_recipients b)"
      "m_senderId c = u_id u" "userId \<in> set (m_recipients c)"
      "m_createdAt a < m_createdAt b" "m_createdAt b < m_createdAt c"
  proof -
    have "mset (filter ?P (messages st)) = filter_mset ?P {#a, b, c#}"
      using h(1) by simp
    also have "\<dots> = {#a, b, c#}"
      using h by simp
    finally have m: "mset (filter ?P (messages st)) = {#a, b, c#}" .
    from o have "mset (orderBy (filter ?P (messages st))) = mset (filter ?P (messages st))"
      "sorted (map m_createdAt (orderBy (filter ?P (messages st))))"
      by blast+
    from orderBy_three [where ord = orderBy and f = m_createdAt, OF this m h(8,9)]
    show ?thesis
      by (simp add: getConversationWithUser_def)
  qed
qed

lemma getConversationWithUser_thread_store:
  "snd (getConversationWithUser (sort_key m_createdAt) None thread_store (Some student1)
      ''student2'')
     = [ex_msg ''m1'' ''student1'' ''student2'' 10, ex_msg ''m2'' ''student2'' ''student1'' 20,
        ex_msg ''m3'' ''student1'' ''student2'' 30]"
  by (rule getConversationWithUser_thread(3))
    (simp_all add: thread_store_def ex_msg_def student1_def)

text \<open>
  C9. The thread of two users is the messages of both directions in ascending order of
  creation time, messages of one time in the order of insertion; messages A to B at t1,
  B to A at t2 and A to B at t3, t1 < t2 < t3, come out as [t1, t2, t3] whatever their
  order in the table. The Express handler returns this thread (lemma
  \<open>getConversationWithUser_thread\<close>). The Convex \<^verbatim>\<open>getConversation\<close> returns
  nothing: with the three messages between \<^verbatim>\<open>student1\<close> and \<^verbatim>\<open>student2\<close> in
  the table, the thread of the two is empty, from either side.
\<close>

theorem getConversation_returns_nothing:
  "cx_messages thread_db
     = [cx_msg ''m3'' ''student1'' ''student2'' 30, cx_msg ''m1'' ''student1'' ''student2'' 10,
        cx_msg ''m2'' ''student2'' ''student1'' 20]
   \<and> getConversation thread_db ''student1'' ''student2'' = []
   \<and> getConversation thread_db ''student2'' ''student1'' = []"
  by (simp add: getConversation_def q_eq_def thread_db_def convex_empty_def)

end
